theory Spec2Isabelle
  imports Complex_Main "HOL-Library.Word" "HOL-Library.Multiset"
begin

section \<open>Shared vocabulary\<close>

text \<open>
  The development follows the most recent revision of \<^verbatim>\<open>pkg/thumber/thumber.go\<close> (the one
  with \<^verbatim>\<open>ParseColor\<close>, the timestamp renderer and the extraction pool); the older sequential
  revision is embedded separately where a property differs between the two.

  A \<^verbatim>\<open>time.Duration\<close> is a count of nanoseconds. Go stores it in an \<^verbatim>\<open>int64\<close>; the model uses
  mathematical integers, which agree with the code as long as no intermediate value leaves
  the 64-bit range (about 292 years). Go's integer \<^verbatim>\<open>/\<close> and \<^verbatim>\<open>%\<close> truncate towards zero.
\<close>

type_synonym duration = int

definition Second :: duration where "Second = 1000000000"
definition Minute :: duration where "Minute = 60 * Second"
definition Hour :: duration where "Hour = 60 * Minute"

definition go_quot :: "int \<Rightarrow> int \<Rightarrow> int" where
  "go_quot a b = sgn a * sgn b * (\<bar>a\<bar> div \<bar>b\<bar>)"

definition go_rem :: "int \<Rightarrow> int \<Rightarrow> int" where
  "go_rem a b = a - b * go_quot a b"

text \<open>
  Every error return and every run-time panic of the code is a value. The payload of an
  error is what the Go error value is built from.
\<close>

datatype error =
    StartAfterEnd
  | IntervalAndTileCount
  | InvalidOptions error
  | NotInstalled string
  | RunFailed string
  | ParseSecondsFailed string
  | ReadDurationFailed error
  | IntervalTooLarge duration
  | DecodeFailed string
  | Joined "error list"
  | RenderFailed string
  | InvalidColor string
  | MakeThumbnailsFailed error
  | GeneratedNoImages
  | SyntaxError
  | PanicDivideByZero
  | PanicIndexOutOfRange

section \<open>Colours: \<^verbatim>\<open>ParseColor\<close>\<close>

text \<open>
  \<^verbatim>\<open>color.Transparent\<close> is \<^verbatim>\<open>color.Alpha16{0}\<close>; every other result of \<^verbatim>\<open>ParseColor\<close> is a
  \<^verbatim>\<open>color.RGBA\<close> with 8-bit channels.
\<close>

datatype color = Alpha16 "16 word" | RGBA "8 word" "8 word" "8 word" "8 word"

definition Transparent :: color where "Transparent = Alpha16 0"

definition White :: color where "White = RGBA 255 255 255 255"

text \<open>
  The digit rule of \<^verbatim>\<open>strconv.ParseUint\<close> for base 16: \<^verbatim>\<open>'0'..'9'\<close>, and letters folded to
  lower case, whose value must stay below the base.
\<close>

definition hexDigit :: "char \<Rightarrow> nat option" where
  "hexDigit c =
     (let n = (of_char c :: nat) in
      if 48 \<le> n \<and> n \<le> 57 then Some (n - 48)
      else if 97 \<le> n \<and> n \<le> 102 then Some (n - 87)
      else if 65 \<le> n \<and> n \<le> 70 then Some (n - 55)
      else None)"

fun ParseUint16_from :: "nat \<Rightarrow> string \<Rightarrow> nat option" where
  "ParseUint16_from n [] = Some n"
| "ParseUint16_from n (c # cs) =
     (case hexDigit c of None \<Rightarrow> None | Some d \<Rightarrow> ParseUint16_from (n * 16 + d) cs)"

text \<open>
  \<^verbatim>\<open>strconv.ParseUint(s, 16, 64)\<close>; the range error needs more than sixteen digits and is
  left out, \<^verbatim>\<open>ParseColor\<close> only passes two characters.
\<close>

definition ParseUint16 :: "string \<Rightarrow> error + nat" where
  "ParseUint16 s =
     (if s = [] then Inl SyntaxError
      else case ParseUint16_from 0 s of None \<Rightarrow> Inl SyntaxError | Some n \<Rightarrow> Inr n)"

text \<open>\<^verbatim>\<open>strconv.ParseInt(s, 16, 64)\<close>: an optional sign, then \<^verbatim>\<open>ParseUint\<close>.\<close>

definition ParseInt16 :: "string \<Rightarrow> error + int" where
  "ParseInt16 s =
     (case s of
        [] \<Rightarrow> Inl SyntaxError
      | c # cs \<Rightarrow>
          (let neg = (c = CHR ''-'');
               s' = (if c = CHR ''+'' \<or> c = CHR ''-'' then cs else s)
           in case ParseUint16 s' of
                Inl e \<Rightarrow> Inl e
              | Inr un \<Rightarrow> Inr (if neg then - int un else int un)))"

text \<open>
  \<^verbatim>\<open>r, _ = strconv.ParseInt(hex[i:j], 16, 64)\<close> followed by \<^verbatim>\<open>uint8(r)\<close>: the error is dropped,
  and on an error \<^verbatim>\<open>ParseInt\<close> returns 0.
\<close>

definition channel :: "string \<Rightarrow> nat \<Rightarrow> nat \<Rightarrow> 8 word" where
  "channel hex i j =
     word_of_int (case ParseInt16 (take (j - i) (drop i hex)) of Inl _ \<Rightarrow> 0 | Inr v \<Rightarrow> v)"

definition ParseColor :: "string \<Rightarrow> error + color" where
  "ParseColor hex0 =
     (if hex0 = ''transparent'' then Inr Transparent
      else case hex0 of
        [] \<Rightarrow> Inl PanicIndexOutOfRange
      | c # rest \<Rightarrow>
          (let hex = (if c = CHR ''#'' then rest else hex0) in
           if length hex = 6
           then Inr (RGBA (channel hex 0 2) (channel hex 2 4) (channel hex 4 6) 255)
           else if length hex = 8
           then Inr (RGBA (channel hex 0 2) (channel hex 2 4) (channel hex 4 6) (channel hex 6 8))
           else Inl (InvalidColor hex)))"

section \<open>The outside world\<close>

text \<open>
  Decoded rasters are kept abstract: a frame as decoded from the extractor's output, a
  rendered label, and the result of \<^verbatim>\<open>imaging.Overlay\<close>, which keeps the bounds of its background.
\<close>

datatype image =
    Frame int int int
  | Label string color int int
  | Overlaid image image int int

fun Dx :: "image \<Rightarrow> int" where
  "Dx (Frame ms w h) = w"
| "Dx (Label s c w h) = w"
| "Dx (Overlaid bg fg x y) = Dx bg"

fun Dy :: "image \<Rightarrow> int" where
  "Dy (Frame ms w h) = h"
| "Dy (Label s c w h) = h"
| "Dy (Overlaid bg fg x y) = Dy bg"

text \<open>
  One run of the program sees one video file and one machine. What the subprocesses and the
  font library answer, and when each pool task completes, are parameters:
  \<^item> \<open>lookPath\<close>: \<^verbatim>\<open>exec.LookPath\<close>;
  \<^item> \<open>ffprobe\<close>: the outcome of running the prober and of \<^verbatim>\<open>strconv.ParseFloat\<close> on its trimmed
    output, a finite \<^verbatim>\<open>float64\<close> being a rational number;
  \<^item> \<open>ffmpeg\<close>: the outcome of the extractor and of \<^verbatim>\<open>image.Decode\<close> for a seek offset in
    milliseconds and a scale width and height;
  \<^item> \<open>MeasureString\<close>, \<open>DrawString\<close>: the two fallible calls into the font library;
  \<^item> \<open>latency\<close>: the completion time of the \<open>i\<close>-th task submitted to the pool.
\<close>

record world =
  lookPath :: "string \<Rightarrow> bool"
  ffprobe :: "error + rat"
  ffmpeg :: "int \<Rightarrow> int \<Rightarrow> int \<Rightarrow> error + image"
  MeasureString :: "string \<Rightarrow> string + (int \<times> int)"
  DrawString :: "string \<Rightarrow> string option"
  latency :: "nat \<Rightarrow> nat"

definition checkFfmpegInstalled :: "world \<Rightarrow> error option" where
  "checkFfmpegInstalled w =
     (if \<not> lookPath w ''ffmpeg'' then Some (NotInstalled ''ffmpeg not installed or not in PATH'')
      else if \<not> lookPath w ''ffprobe'' then Some (NotInstalled ''ffprobe not installed or not in PATH'')
      else None)"

section \<open>Duration prober and frame extractor\<close>

text \<open>Go's conversion of a finite \<^verbatim>\<open>float64\<close> to an integer type drops the fraction.\<close>

definition float_to_int :: "rat \<Rightarrow> int" where
  "float_to_int x = (if 0 \<le> x then \<lfloor>x\<rfloor> else \<lceil>x\<rceil>)"

definition readDuration :: "world \<Rightarrow> error + duration" where
  "readDuration w =
     (case ffprobe w of
        Inl e \<Rightarrow> Inl e
      | Inr seconds \<Rightarrow> Inr (Second * float_to_int seconds))"

record Thumbnail =
  Img :: image
  Timestamp :: duration

definition Milliseconds :: "duration \<Rightarrow> int" where
  "Milliseconds d = go_quot d 1000000"

definition extractThumbnail :: "world \<Rightarrow> duration \<Rightarrow> int \<Rightarrow> int \<Rightarrow> error + Thumbnail" where
  "extractThumbnail w timestamp width height =
     (let width' = (if width = 0 then -1 else width);
          height' = (if width = 0 then height else if height = 0 then -1 else height)
      in case ffmpeg w (Milliseconds timestamp) width' height' of
           Inl e \<Rightarrow> Inl e
         | Inr img \<Rightarrow> Inr \<lparr>Img = img, Timestamp = timestamp\<rparr>)"

section \<open>Options and the timing plan\<close>

record ThumbOptions =
  From :: duration
  To :: duration
  TileColumns :: int
  TileCount :: int
  Interval :: duration
  TileWidth :: int
  TileHeight :: int
  OverlayTimestamps :: bool
  TimestampBackground :: color
  Padding :: int

definition Validate :: "ThumbOptions \<Rightarrow> error option" where
  "Validate opts =
     (if From opts \<noteq> 0 \<and> To opts \<noteq> 0 \<and> From opts > To opts then Some StartAfterEnd
      else if Interval opts \<noteq> 0 \<and> TileCount opts \<noteq> 0 then Some IntervalAndTileCount
      else None)"

text \<open>
  The sampling window of \<^verbatim>\<open>MakeThumbnails\<close>: \<^verbatim>\<open>start := opts.From\<close>, \<^verbatim>\<open>end := duration\<close> unless
  \<^verbatim>\<open>opts.To\<close> is set, \<^verbatim>\<open>duration = end - start\<close>.
\<close>

definition window :: "ThumbOptions \<Rightarrow> duration \<Rightarrow> duration" where
  "window opts probed = (if To opts \<noteq> 0 then To opts else probed) - From opts"

text \<open>The value \<^verbatim>\<open>totalTiles\<close> has when the division is reached.\<close>

definition totalTiles :: "ThumbOptions \<Rightarrow> duration \<Rightarrow> int" where
  "totalTiles opts duration =
     (if Interval opts \<noteq> 0 then go_quot duration (Interval opts) else TileCount opts)"

text \<open>
  The timing part of \<^verbatim>\<open>MakeThumbnails\<close>, from \<^verbatim>\<open>start := opts.From\<close> to
  \<^verbatim>\<open>interval := duration / time.Duration(totalTiles)\<close>: the result is the triple
  \<open>(start, interval, totalTiles)\<close>. An integer division by zero is a run-time panic.
\<close>

definition timing :: "ThumbOptions \<Rightarrow> duration \<Rightarrow> error + (duration \<times> duration \<times> int)" where
  "timing opts probed =
     (let start = From opts;
          duration = window opts probed
      in if Interval opts > duration then Inl (IntervalTooLarge duration)
         else if Interval opts \<noteq> 0 \<and> Interval opts > duration then Inl (IntervalTooLarge duration)
         else if totalTiles opts duration = 0 then Inl PanicDivideByZero
         else Inr (start, go_quot duration (totalTiles opts duration), totalTiles opts duration))"

text \<open>The timestamps the extraction loop asks for: \<^verbatim>\<open>t := start + time.Duration(i)*interval\<close>.\<close>

definition sampleTimes :: "duration \<Rightarrow> duration \<Rightarrow> int \<Rightarrow> duration list" where
  "sampleTimes start interval n = map (\<lambda>i. start + int i * interval) [0..<nat n]"

section \<open>The extraction pool\<close>

record indexedThumb =
  Thumb :: Thumbnail
  Index :: nat

definition zeroThumb :: indexedThumb where
  "zeroThumb = \<lparr>Thumb = \<lparr>Img = Frame 0 0 0, Timestamp = 0\<rparr>, Index = 0\<rparr>"

text \<open>The closure handed to \<^verbatim>\<open>p.Go\<close> for index \<open>i\<close>.\<close>

definition task :: "world \<Rightarrow> ThumbOptions \<Rightarrow> duration \<Rightarrow> duration \<Rightarrow> nat \<Rightarrow> error + indexedThumb" where
  "task w opts start interval i =
     (let t = start + int i * interval
      in case extractThumbnail w t (TileWidth opts) (TileHeight opts) of
           Inl e \<Rightarrow> Inl e
         | Inr th \<Rightarrow> Inr \<lparr>Thumb = th, Index = i\<rparr>)"

fun errorsOf :: "(error + 'a) list \<Rightarrow> error list" where
  "errorsOf [] = []"
| "errorsOf (Inl e # rs) = e # errorsOf rs"
| "errorsOf (Inr v # rs) = errorsOf rs"

fun resultsOf :: "'a \<Rightarrow> (error + 'a) list \<Rightarrow> 'a list" where
  "resultsOf z [] = []"
| "resultsOf z (Inl e # rs) = z # resultsOf z rs"
| "resultsOf z (Inr v # rs) = v # resultsOf z rs"

text \<open>
  The order in which \<open>n\<close> submitted tasks complete. Every task runs (the pool is built
  without \<^verbatim>\<open>WithCancelOnError\<close>), so the order is a permutation of the indices; which one
  is the scheduler's choice, here derived from the latencies.
\<close>

definition completionOrder :: "world \<Rightarrow> nat \<Rightarrow> nat list" where
  "completionOrder w n = sort_key (latency w) [0..<n]"

text \<open>
  \<^verbatim>\<open>p.Wait()\<close> of a result pool with \<^verbatim>\<open>WithCollectErrored\<close>: results and errors are appended as
  tasks complete; the error is nil when no task failed and the join of all task errors
  otherwise.
\<close>

definition pool_Wait :: "'a \<Rightarrow> (error + 'a) list \<Rightarrow> 'a list \<times> error option" where
  "pool_Wait z outcomes =
     (resultsOf z outcomes,
      if errorsOf outcomes = [] then None else Some (Joined (errorsOf outcomes)))"

text \<open>
  From \<^verbatim>\<open>pool.NewWithResults\<close> to the end of \<^verbatim>\<open>MakeThumbnails\<close>. \<^verbatim>\<open>slices.SortFunc\<close> is not a
  stable sort; it is only reached when no task failed, where the indices are distinct and
  the sorted order is unique.
\<close>

definition extractAll :: "world \<Rightarrow> ThumbOptions \<Rightarrow> duration \<Rightarrow> duration \<Rightarrow> int \<Rightarrow> error + Thumbnail list" where
  "extractAll w opts start interval n =
     (case pool_Wait zeroThumb (map (task w opts start interval) (completionOrder w (nat n))) of
        (results, Some err) \<Rightarrow> Inl err
      | (results, None) \<Rightarrow> Inr (map Thumb (sort_key Index results)))"

text \<open>The part of \<^verbatim>\<open>MakeThumbnails\<close> before the pool is created.\<close>

definition plan :: "world \<Rightarrow> ThumbOptions \<Rightarrow> error + (duration \<times> duration \<times> int)" where
  "plan w opts =
     (case Validate opts of
        Some e \<Rightarrow> Inl (InvalidOptions e)
      | None \<Rightarrow>
          (case checkFfmpegInstalled w of
             Some e \<Rightarrow> Inl e
           | None \<Rightarrow>
               (case readDuration w of
                  Inl e \<Rightarrow> Inl (ReadDurationFailed e)
                | Inr duration \<Rightarrow> timing opts duration)))"

definition MakeThumbnails :: "world \<Rightarrow> ThumbOptions \<Rightarrow> error + Thumbnail list" where
  "MakeThumbnails w opts =
     (case plan w opts of
        Inl e \<Rightarrow> Inl e
      | Inr (start, interval, n) \<Rightarrow> extractAll w opts start interval n)"

section \<open>Timestamp labels and the contact sheet\<close>

fun decimal :: "nat \<Rightarrow> string" where
  "decimal n = (if n < 10 then [char_of (48 + n)] else decimal (n div 10) @ [char_of (48 + n mod 10)])"

declare decimal.simps [simp del]

text \<open>\<^verbatim>\<open>fmt.Sprintf("%02d", n)\<close>: the sign counts towards the width of two.\<close>

definition pad02 :: "int \<Rightarrow> string" where
  "pad02 n =
     (if n < 0 then CHR ''-'' # decimal (nat (- n))
      else if n < 10 then CHR ''0'' # decimal (nat n)
      else decimal (nat n))"

definition formatDuration :: "duration \<Rightarrow> string" where
  "formatDuration d =
     (let h = go_quot d Hour;
          d1 = d - h * Hour;
          m = go_quot d1 Minute;
          d2 = d1 - m * Minute;
          s = go_quot d2 Second
      in pad02 h @ '':'' @ pad02 m @ '':'' @ pad02 s)"

text \<open>
  \<^verbatim>\<open>defaultRenderer.Render\<close>: the label's size is the measured string, in 1/256 pixel units,
  plus a padding of 4; measuring and drawing can each fail.
\<close>

definition Render :: "world \<Rightarrow> color \<Rightarrow> string \<Rightarrow> error + image" where
  "Render w bg text =
     (case MeasureString w text of
        Inl e \<Rightarrow> Inl (RenderFailed e)
      | Inr (tw, th) \<Rightarrow>
          (let twPx = go_quot tw 256;
               thPx = go_quot th 256;
               padding = 4
           in case DrawString w text of
                Some e \<Rightarrow> Inl (RenderFailed e)
              | None \<Rightarrow> Inr (Label text bg (twPx + padding) (thPx + padding))))"

definition overlayTimestamp :: "(string \<Rightarrow> error + image) \<Rightarrow> Thumbnail \<Rightarrow> error + Thumbnail" where
  "overlayTimestamp r t =
     (case r (formatDuration (Timestamp t)) of
        Inl e \<Rightarrow> Inl e
      | Inr textImg \<Rightarrow>
          (let padding = 10;
               x = Dx (Img t) - Dx textImg - padding;
               y = Dy (Img t) - Dy textImg - padding
           in Inr (t\<lparr>Img := Overlaid (Img t) textImg x y\<rparr>)))"

text \<open>
  What one iteration of the compositor's loop does to the outside: it pastes an image onto
  the canvas at a point, or it logs an error for a timestamp and goes on to the next tile.
\<close>

datatype event = Paste image int int | LogError duration error

text \<open>The body of the loop \<^verbatim>\<open>for i, img := range thumbs\<close> of \<^verbatim>\<open>makeContactSheet\<close>.\<close>

definition pasteTile ::
  "(string \<Rightarrow> error + image) \<Rightarrow> ThumbOptions \<Rightarrow> int \<Rightarrow> int \<Rightarrow> nat \<Rightarrow> Thumbnail \<Rightarrow> event" where
  "pasteTile r opts tileWidth tileHeight i img =
     (let row = go_quot (int i) (TileColumns opts);
          col = go_rem (int i) (TileColumns opts);
          x = Padding opts + col * tileWidth + col * Padding opts;
          y = Padding opts + row * tileHeight + row * Padding opts
      in if OverlayTimestamps opts
         then (case overlayTimestamp r img of
                 Inl err \<Rightarrow> LogError (Timestamp img) err
               | Inr img' \<Rightarrow> Paste (Img img') x y)
         else Paste (Img img) x y)"

text \<open>The loop itself, from index \<open>i\<close> on.\<close>

fun pasteTiles ::
  "(string \<Rightarrow> error + image) \<Rightarrow> ThumbOptions \<Rightarrow> int \<Rightarrow> int \<Rightarrow> nat \<Rightarrow> Thumbnail list \<Rightarrow> event list" where
  "pasteTiles r opts tileWidth tileHeight i [] = []"
| "pasteTiles r opts tileWidth tileHeight i (img # rest) =
     pasteTile r opts tileWidth tileHeight i img # pasteTiles r opts tileWidth tileHeight (Suc i) rest"

text \<open>
  The canvas is kept as the size asked of \<^verbatim>\<open>imaging.New\<close> and the loop's events in order.
  \<^verbatim>\<open>thumbs[0]\<close> panics on an empty slice. With zero columns the float division that gives
  \<^verbatim>\<open>rows\<close> does not panic, the integer division \<^verbatim>\<open>i / opts.TileColumns\<close> of the first
  iteration does. \<^verbatim>\<open>math.Ceil\<close> of the \<^verbatim>\<open>float64\<close> quotient is the ceiling of the exact quotient
  for every slice length a machine can hold.
\<close>

record sheet =
  Width :: int
  Height :: int
  Events :: "event list"

definition makeContactSheet :: "world \<Rightarrow> Thumbnail list \<Rightarrow> ThumbOptions \<Rightarrow> error + sheet" where
  "makeContactSheet w thumbs opts =
     (case thumbs of
        [] \<Rightarrow> Inl PanicIndexOutOfRange
      | first # _ \<Rightarrow>
          if TileColumns opts = 0 then Inl PanicDivideByZero
          else
            (let rows = \<lceil>real (length thumbs) / real_of_int (TileColumns opts)\<rceil>;
                 tileWidth = Dx (Img first);
                 tileHeight = Dy (Img first);
                 cw = tileWidth * TileColumns opts + (TileColumns opts + 1) * Padding opts;
                 ch = tileHeight * rows + (rows + 1) * Padding opts;
                 renderer = Render w (TimestampBackground opts)
             in Inr \<lparr>Width = cw, Height = ch,
                     Events = pasteTiles renderer opts tileWidth tileHeight 0 thumbs\<rparr>))"



section \<open>Vocabulary of the statements\<close>

text \<open>
  The text of a colour without one leading hash sign, the characters that count as
  hexadecimal digits, and the byte that two of them denote.
\<close>

definition hexBody :: "string \<Rightarrow> string" where
  "hexBody s = (case s of [] \<Rightarrow> [] | c # rest \<Rightarrow> if c = CHR ''#'' then rest else s)"

definition isHex :: "char \<Rightarrow> bool" where
  "isHex c = (hexDigit c \<noteq> None)"

definition hexByte :: "char \<Rightarrow> char \<Rightarrow> 8 word" where
  "hexByte a b = word_of_nat (16 * the (hexDigit a) + the (hexDigit b))"

text \<open>
  A machine on which everything works, for the concrete runs below: both tools are on the
  path, the video lasts 100 seconds, every frame decodes to the size asked for, every label
  renders, and the pool's tasks complete in the reverse of their submission order.
\<close>

definition studio :: world where
  "studio =
     \<lparr>lookPath = (\<lambda>_. True),
      ffprobe = Inr 100,
      ffmpeg = (\<lambda>ms w h. Inr (Frame ms w h)),
      MeasureString = (\<lambda>s. Inr (256 * 7 * int (length s), 256 * 12)),
      DrawString = (\<lambda>_. None),
      latency = (\<lambda>i. 100 - i)\<rparr>"

definition fiveTiles :: ThumbOptions where
  "fiveTiles =
     \<lparr>From = 0, To = 100 * Second, TileColumns = 3, TileCount = 5, Interval = 0,
      TileWidth = 540, TileHeight = 304, OverlayTimestamps = False,
      TimestampBackground = Transparent, Padding = 4\<rparr>"


text \<open>The same machine with an extractor that fails at one seek offset.\<close>

definition failingAt :: "int \<Rightarrow> world" where
  "failingAt ms0 =
     studio\<lparr>ffmpeg := (\<lambda>ms w h. if ms = ms0 then Inl (RunFailed ''exit status 1'')
                                 else Inr (Frame ms w h))\<rparr>"

text \<open>
  The grid position of tile \<open>i\<close> as the specification words it: \<open>col = i mod columns\<close>,
  \<open>row = i div columns\<close>, \<open>x = padding + col * (tileWidth + padding)\<close> and
  \<open>y = padding + row * (tileHeight + padding)\<close>.
\<close>

definition tileX :: "ThumbOptions \<Rightarrow> int \<Rightarrow> nat \<Rightarrow> int" where
  "tileX opts tileWidth i =
     Padding opts + (int i mod TileColumns opts) * (tileWidth + Padding opts)"

definition tileY :: "ThumbOptions \<Rightarrow> int \<Rightarrow> nat \<Rightarrow> int" where
  "tileY opts tileHeight i =
     Padding opts + (int i div TileColumns opts) * (tileHeight + Padding opts)"

definition isPaste :: "event \<Rightarrow> bool" where
  "isPaste ev = (case ev of Paste img x y \<Rightarrow> True | LogError t e \<Rightarrow> False)"

text \<open>The same machine with a font library that cannot measure one label.\<close>

definition glitch :: world where
  "glitch =
     studio\<lparr>MeasureString := (\<lambda>s. if s = ''00:00:20'' then Inl ''bad glyph''
                                  else Inr (256 * 7 * int (length s), 256 * 12))\<rparr>"

definition frameAt :: "int \<Rightarrow> Thumbnail" where
  "frameAt secs = \<lparr>Img = Frame (1000 * secs) 100 100, Timestamp = secs * Second\<rparr>"

section \<open>The sequential revision\<close>

text \<open>
  The oldest revision of \<^verbatim>\<open>MakeThumbnails\<close> (\<^verbatim>\<open>src/pkg/thumber/thumber.go\<close>) has no pool. It
  truncates the probed duration to whole seconds, runs the same timing computation and
  extracts the frames one after the other; a frame that cannot be extracted, or whose label
  cannot be drawn on a black background, is logged and left out, and the images that are
  left are returned without an error.
\<close>

definition Truncate :: "duration \<Rightarrow> duration \<Rightarrow> duration" where
  "Truncate d m = (if m \<le> 0 then d else d - go_rem d m)"

fun extractLoop :: "world \<Rightarrow> ThumbOptions \<Rightarrow> duration \<Rightarrow> duration \<Rightarrow> nat list \<Rightarrow> image list" where
  "extractLoop w opts start interval [] = []"
| "extractLoop w opts start interval (i # rest) =
     (let t = start + int i * interval
      in case extractThumbnail w t (TileWidth opts) (TileHeight opts) of
           Inl err \<Rightarrow> extractLoop w opts start interval rest
         | Inr th \<Rightarrow>
             if OverlayTimestamps opts
             then (case Render w (RGBA 0 0 0 255) (formatDuration t) of
                     Inl err \<Rightarrow> extractLoop w opts start interval rest
                   | Inr tsImage \<Rightarrow>
                       Overlaid (Img th) tsImage (Dx (Img th) - Dx tsImage - 10)
                                                 (Dy (Img th) - Dy tsImage - 10)
                         # extractLoop w opts start interval rest)
             else Img th # extractLoop w opts start interval rest)"

definition MakeThumbnails_sequential :: "world \<Rightarrow> ThumbOptions \<Rightarrow> error + image list" where
  "MakeThumbnails_sequential w opts =
     (case Validate opts of
        Some e \<Rightarrow> Inl (InvalidOptions e)
      | None \<Rightarrow>
          (case checkFfmpegInstalled w of
             Some e \<Rightarrow> Inl e
           | None \<Rightarrow>
               (case readDuration w of
                  Inl e \<Rightarrow> Inl (ReadDurationFailed e)
                | Inr duration \<Rightarrow>
                    (case timing opts (Truncate duration Second) of
                       Inl e \<Rightarrow> Inl e
                     | Inr (start, interval, n) \<Rightarrow>
                         Inr (extractLoop w opts start interval [0..<nat n])))))"

section \<open>Properties\<close>

subsection \<open>Colour parsing\<close>

lemma isHex_not_sign: "isHex c \<Longrightarrow> c \<noteq> CHR ''+'' \<and> c \<noteq> CHR ''-''"
  by (auto simp: isHex_def hexDigit_def)

lemma ParseInt16_pair:
  assumes "isHex a" "isHex b"
  shows "ParseInt16 [a, b] = Inr (int (16 * the (hexDigit a) + the (hexDigit b)))"
proof -
  from assms obtain da db where d: "hexDigit a = Some da" "hexDigit b = Some db"
    by (auto simp: isHex_def)
  from isHex_not_sign [OF assms(1)] d show ?thesis
    by (simp add: ParseInt16_def ParseUint16_def)
qed

lemma channel_pair:
  "isHex a \<Longrightarrow> isHex b \<Longrightarrow> word_of_int (case ParseInt16 [a, b] of Inl _ \<Rightarrow> 0 | Inr v \<Rightarrow> v) = hexByte a b"
  by (simp add: ParseInt16_pair hexByte_def)

lemma length6: "length xs = 6 \<Longrightarrow> \<exists>a b c d e f. xs = [a, b, c, d, e, f]"
  by (auto simp: length_Suc_conv numeral_eq_Suc)

lemma length8: "length xs = 8 \<Longrightarrow> \<exists>a b c d e f g h. xs = [a, b, c, d, e, f, g, h]"
  by (auto simp: length_Suc_conv numeral_eq_Suc)

lemma ParseColor_body:
  assumes "s \<noteq> []" "s \<noteq> ''transparent''"
  shows "ParseColor s =
     (let hex = hexBody s in
           if length hex = 6
           then Inr (RGBA (channel hex 0 2) (channel hex 2 4) (channel hex 4 6) 255)
           else if length hex = 8
           then Inr (RGBA (channel hex 0 2) (channel hex 2 4) (channel hex 4 6) (channel hex 6 8))
           else Inl (InvalidColor hex))"
  using assms by (cases s) (simp_all add: ParseColor_def hexBody_def)

lemma hexBody_transparent: "hexBody ''transparent'' = ''transparent''"
  by (simp add: hexBody_def)

lemma ParseColor_rgb:
  assumes "s \<noteq> []" "length (hexBody s) = 6" "list_all isHex (hexBody s)"
  shows "ParseColor s = Inr (RGBA (hexByte (hexBody s ! 0) (hexBody s ! 1)) (hexByte (hexBody s ! 2) (hexBody s ! 3))
            (hexByte (hexBody s ! 4) (hexBody s ! 5)) 255)"
proof -
  have nt: "s \<noteq> ''transparent''" using assms(2) by (auto simp: hexBody_transparent)
  from length6 [OF assms(2)] obtain a b c d e f where h: "hexBody s = [a, b, c, d, e, f]" by blast
  with assms(3) have "isHex a" "isHex b" "isHex c" "isHex d" "isHex e" "isHex f" by simp_all
  then show ?thesis
    by (simp add: ParseColor_body [OF assms(1) nt] h channel_def channel_pair)
qed

lemma ParseColor_rgba:
  assumes "s \<noteq> []" "length (hexBody s) = 8" "list_all isHex (hexBody s)"
  shows "ParseColor s = Inr (RGBA (hexByte (hexBody s ! 0) (hexBody s ! 1)) (hexByte (hexBody s ! 2) (hexBody s ! 3))
            (hexByte (hexBody s ! 4) (hexBody s ! 5)) (hexByte (hexBody s ! 6) (hexBody s ! 7)))"
proof -
  have nt: "s \<noteq> ''transparent''" using assms(2) by (auto simp: hexBody_transparent)
  from length8 [OF assms(2)] obtain a b c d e f g h where h: "hexBody s = [a, b, c, d, e, f, g, h]" by blast
  with assms(3) have "isHex a" "isHex b" "isHex c" "isHex d" "isHex e" "isHex f" "isHex g" "isHex h" by simp_all
  then show ?thesis
    by (simp add: ParseColor_body [OF assms(1) nt] h channel_def channel_pair)
qed

text \<open>
  Claim C8, as the code has it. \<^verbatim>\<open>"transparent"\<close> gives the transparent colour; six
  hexadecimal digits, with or without a leading hash sign, give that RGB with alpha 255
  (\<^verbatim>\<open>"#F0F0F0"\<close> gives 240, 240, 240, 255); eight give that RGBA (\<^verbatim>\<open>"#101112CC"\<close> gives
  16, 17, 18, 204); a non-empty text whose body is neither six nor eight characters long
  fails with the invalid-colour error. A body of six or eight characters is never
  rejected, whatever its characters are.
\<close>

theorem ParseColor_forms:
  "ParseColor ''transparent'' = Inr Transparent
   \<and> ParseColor ''#F0F0F0'' = Inr (RGBA 240 240 240 255)
   \<and> ParseColor ''#101112CC'' = Inr (RGBA 16 17 18 204)
   \<and> (s6 \<noteq> [] \<and> length (hexBody s6) = 6 \<and> list_all isHex (hexBody s6) \<longrightarrow>
        ParseColor s6 = Inr (RGBA (hexByte (hexBody s6 ! 0) (hexBody s6 ! 1))
                                  (hexByte (hexBody s6 ! 2) (hexBody s6 ! 3))
                                  (hexByte (hexBody s6 ! 4) (hexBody s6 ! 5)) 255))
   \<and> (s8 \<noteq> [] \<and> length (hexBody s8) = 8 \<and> list_all isHex (hexBody s8) \<longrightarrow>
        ParseColor s8 = Inr (RGBA (hexByte (hexBody s8 ! 0) (hexBody s8 ! 1))
                                  (hexByte (hexBody s8 ! 2) (hexBody s8 ! 3))
                                  (hexByte (hexBody s8 ! 4) (hexBody s8 ! 5))
                                  (hexByte (hexBody s8 ! 6) (hexBody s8 ! 7))))
   \<and> (sx \<noteq> [] \<and> sx \<noteq> ''transparent'' \<and> length (hexBody sx) \<noteq> 6 \<and> length (hexBody sx) \<noteq> 8 \<longrightarrow>
        ParseColor sx = Inl (InvalidColor (hexBody sx)))
   \<and> (sy \<noteq> [] \<and> (length (hexBody sy) = 6 \<or> length (hexBody sy) = 8) \<longrightarrow>
        (\<exists>c. ParseColor sy = Inr c))"
proof (intro conjI impI)
  show "ParseColor ''transparent'' = Inr Transparent" by (simp add: ParseColor_def)
  show "ParseColor ''#F0F0F0'' = Inr (RGBA 240 240 240 255)"
    by (simp add: ParseColor_def channel_def ParseInt16_def ParseUint16_def hexDigit_def)
  show "ParseColor ''#101112CC'' = Inr (RGBA 16 17 18 204)"
    by (simp add: ParseColor_def channel_def ParseInt16_def ParseUint16_def hexDigit_def)
next
  assume "s6 \<noteq> [] \<and> length (hexBody s6) = 6 \<and> list_all isHex (hexBody s6)"
  then show "ParseColor s6 = Inr (RGBA (hexByte (hexBody s6 ! 0) (hexBody s6 ! 1))
                                  (hexByte (hexBody s6 ! 2) (hexBody s6 ! 3))
                                  (hexByte (hexBody s6 ! 4) (hexBody s6 ! 5)) 255)"
    by (simp add: ParseColor_rgb)
next
  assume "s8 \<noteq> [] \<and> length (hexBody s8) = 8 \<and> list_all isHex (hexBody s8)"
  then show "ParseColor s8 = Inr (RGBA (hexByte (hexBody s8 ! 0) (hexBody s8 ! 1))
                                  (hexByte (hexBody s8 ! 2) (hexBody s8 ! 3))
                                  (hexByte (hexBody s8 ! 4) (hexBody s8 ! 5))
                                  (hexByte (hexBody s8 ! 6) (hexBody s8 ! 7)))"
    by (simp add: ParseColor_rgba)
next
  assume "sx \<noteq> [] \<and> sx \<noteq> ''transparent'' \<and> length (hexBody sx) \<noteq> 6 \<and> length (hexBody sx) \<noteq> 8"
  then show "ParseColor sx = Inl (InvalidColor (hexBody sx))"
    by (simp add: ParseColor_body)
next
  assume a: "sy \<noteq> [] \<and> (length (hexBody sy) = 6 \<or> length (hexBody sy) = 8)"
  then have "sy \<noteq> ''transparent''" by (auto simp: hexBody_transparent)
  with a show "\<exists>c. ParseColor sy = Inr c"
    by (auto simp: ParseColor_body Let_def)
qed

theorem ParseColor_forms_witness:
  "ParseColor ''a1b2c3'' = Inr (RGBA 161 178 195 255)
   \<and> ParseColor ''#0a0B0c0D'' = Inr (RGBA 10 11 12 13)
   \<and> ParseColor ''12345'' = Inl (InvalidColor ''12345'')
   \<and> (\<exists>c. ParseColor ''#zzzzzz'' = Inr c)"
  using ParseColor_forms [of "''a1b2c3''" "''#0a0B0c0D''" "''12345''" "''#zzzzzz''"]
  by (simp add: hexBody_def isHex_def hexDigit_def hexByte_def)

text \<open>
  Characters that are not hexadecimal digits do not make \<^verbatim>\<open>ParseColor\<close> fail: the parse
  error of each channel is dropped and the channel is 0.
\<close>

theorem ParseColor_accepts_non_hex: "ParseColor ''zzzzzz'' = Inr (RGBA 0 0 0 255)"
  by (simp add: ParseColor_def channel_def ParseInt16_def ParseUint16_def hexDigit_def)

subsection \<open>The timing plan\<close>

lemmas run_defs = MakeThumbnails_def plan_def Validate_def checkFfmpegInstalled_def readDuration_def
  float_to_int_def timing_def window_def totalTiles_def go_quot_def Second_def

lemma upt_0_5: "[0..<5] = [0, 1, 2, 3, 4]"
  by code_simp


lemma int_div_bounds:
  fixes a b :: int
  assumes "0 < b"
  shows "b * (a div b) \<le> a" and "a < b * (a div b + 1)"
proof -
  have e: "b * (a div b) + a mod b = a" by simp
  have "0 \<le> a mod b" "a mod b < b" using assms by simp_all
  with e show "b * (a div b) \<le> a" by linarith
  from e \<open>a mod b < b\<close> have "a < b * (a div b) + b" by linarith
  then show "a < b * (a div b + 1)" by (simp add: algebra_simps)
qed

lemma go_quot_pos: "0 \<le> a \<Longrightarrow> 0 < b \<Longrightarrow> go_quot a b = a div b"
  by (cases "a = 0") (simp_all add: go_quot_def)

lemma sampleTimes_increasing:
  assumes "0 < sp"
  shows "sorted_wrt (<) (sampleTimes start sp n)"
  using assms by (simp add: sampleTimes_def sorted_wrt_iff_nth_less)

lemma totalTiles_pos_interval:
  assumes "0 < W" "0 < totalTiles opts W"
  shows "Interval opts \<le> W"
proof (cases "Interval opts = 0")
  case True
  with assms show ?thesis by simp
next
  case False
  with assms(2) have q: "0 < go_quot W (Interval opts)" by (simp add: totalTiles_def)
  show ?thesis
  proof (rule ccontr)
    assume "\<not> Interval opts \<le> W"
    then have "W < Interval opts" by simp
    with assms(1) have "go_quot W (Interval opts) = 0"
      by (simp add: go_quot_pos)
    with q show False by simp
  qed
qed

text \<open>
  Claim C2, as the code has it. Durations are whole nanoseconds and the spacing is the
  integer quotient of the window by the tile count. When the window is positive, the
  effective tile count \<open>n\<close> is positive and \<open>n\<close> is at most the window in nanoseconds,
  the call reaches the extraction loop with exactly \<open>n\<close> timestamps
  \<open>start + i * spacing\<close>, strictly increasing. For a window from 0 to 100 seconds and five
  tiles they are 0, 20, 40, 60 and 80 seconds.
\<close>

theorem timing_plan:
  "0 < window opts probed \<Longrightarrow> n = totalTiles opts (window opts probed) \<Longrightarrow> 0 < n \<Longrightarrow>
   n \<le> window opts probed \<Longrightarrow>
     timing opts probed = Inr (From opts, window opts probed div n, n)
     \<and> sampleTimes (From opts) (window opts probed div n) n =
         map (\<lambda>i. From opts + int i * (window opts probed div n)) [0..<nat n]
     \<and> length (sampleTimes (From opts) (window opts probed div n) n) = nat n
     \<and> sorted_wrt (<) (sampleTimes (From opts) (window opts probed div n) n)"
proof -
  assume W: "0 < window opts probed" and n: "n = totalTiles opts (window opts probed)"
    and pos: "0 < n" and le: "n \<le> window opts probed"
  have iv: "Interval opts \<le> window opts probed"
    using totalTiles_pos_interval W pos n by blast
  have q: "go_quot (window opts probed) n = window opts probed div n"
    using W pos by (simp add: go_quot_pos)
  have t: "timing opts probed = Inr (From opts, window opts probed div n, n)"
    using iv pos n q by (simp add: timing_def Let_def)
  have "0 < window opts probed div n"
    using pos le by (simp add: pos_imp_zdiv_pos_iff)
  then have "sorted_wrt (<) (sampleTimes (From opts) (window opts probed div n) n)"
    by (rule sampleTimes_increasing)
  with t show ?thesis by (simp add: sampleTimes_def)
qed

theorem timing_plan_witness:
  "timing fiveTiles 0 = Inr (0, 20 * Second, 5)
   \<and> sampleTimes 0 (20 * Second) 5 = [0, 20 * Second, 40 * Second, 60 * Second, 80 * Second]
   \<and> sorted_wrt (<) (sampleTimes 0 (20 * Second) 5)"
proof -
  have w: "window fiveTiles 0 = 100 * Second"
    by (simp add: fiveTiles_def window_def Second_def)
  have h1: "0 < window fiveTiles 0"
    by (simp add: w Second_def)
  have h2: "5 = totalTiles fiveTiles (window fiveTiles 0)"
    by (simp add: fiveTiles_def totalTiles_def)
  have h3: "(0::int) < 5" by simp
  have h4: "5 \<le> window fiveTiles 0"
    by (simp add: w Second_def)
  have d: "window fiveTiles 0 div 5 = 20 * Second"
    by (simp add: w Second_def)
  have f: "From fiveTiles = 0"
    by (simp add: fiveTiles_def)
  have l: "sampleTimes 0 (20 * Second) 5 = [0, 20 * Second, 40 * Second, 60 * Second, 80 * Second]"
    by (simp add: sampleTimes_def upt_0_5)
  from timing_plan [OF h1 h2 h3 h4] l show ?thesis
    unfolding d f by blast
qed

text \<open>
  With more tiles than the window has nanoseconds the spacing is 0 and all timestamps are
  the same: a window of 3 nanoseconds and five tiles.
\<close>

theorem timing_plan_not_increasing:
  "Validate (fiveTiles\<lparr>To := 3\<rparr>) = None
   \<and> window (fiveTiles\<lparr>To := 3\<rparr>) 0 = 3
   \<and> totalTiles (fiveTiles\<lparr>To := 3\<rparr>) 3 = 5
   \<and> timing (fiveTiles\<lparr>To := 3\<rparr>) 0 = Inr (0, 0, 5)
   \<and> sampleTimes 0 0 5 = [0, 0, 0, 0, 0]"
  by (simp add: fiveTiles_def Validate_def timing_def window_def totalTiles_def go_quot_def sampleTimes_def upt_0_5)




text \<open>
  Claim C5 at a concrete input: with neither interval nor tile count set, the options pass
  validation and the call divides by the zero tile count.
\<close>

theorem MakeThumbnails_zero_tiles_panics:
  "Validate (fiveTiles\<lparr>To := 0, TileCount := 0\<rparr>) = None
   \<and> MakeThumbnails studio (fiveTiles\<lparr>To := 0, TileCount := 0\<rparr>) = Inl PanicDivideByZero"
  by (simp add: run_defs studio_def fiveTiles_def)

subsection \<open>The duration prober\<close>





subsection \<open>The extraction pool\<close>

























lemma Milliseconds_sample: "Milliseconds (int j * (20 * Second)) = 20000 * int j"
proof -
  have "int j * (20 * Second) = (20000 * int j) * 1000000" by (simp add: Second_def)
  then show ?thesis
    by (simp only: Milliseconds_def) (simp add: go_quot_pos)
qed












subsection \<open>The contact sheet\<close>

lemma go_quot_nat: "0 < c \<Longrightarrow> go_quot (int i) c = int i div c"
  by (simp add: go_quot_pos)

lemma go_rem_nat: "0 < c \<Longrightarrow> go_rem (int i) c = int i mod c"
  by (simp add: go_rem_def go_quot_pos minus_mult_div_eq_mod)

lemma pasteTile_grid:
  assumes "0 < TileColumns opts"
  shows "pasteTile r opts tw th i t =
     (if OverlayTimestamps opts
      then (case overlayTimestamp r t of
              Inl err \<Rightarrow> LogError (Timestamp t) err
            | Inr t' \<Rightarrow> Paste (Img t') (tileX opts tw i) (tileY opts th i))
      else Paste (Img t) (tileX opts tw i) (tileY opts th i))"
  by (simp add: pasteTile_def Let_def go_quot_nat [OF assms] go_rem_nat [OF assms] tileX_def tileY_def
      algebra_simps cong: sum.case_cong)

lemma pasteTiles_length: "length (pasteTiles r opts tw th k thumbs) = length thumbs"
  by (induction thumbs arbitrary: k) simp_all

lemma pasteTiles_nth:
  "j < length thumbs \<Longrightarrow>
   pasteTiles r opts tw th k thumbs ! j = pasteTile r opts tw th (k + j) (thumbs ! j)"
proof (induction thumbs arbitrary: k j)
  case Nil
  then show ?case by simp
next
  case (Cons t ts)
  then show ?case by (cases j) simp_all
qed

lemma rows_bounds:
  assumes "0 < c"
  shows "c * (\<lceil>real n / real_of_int c\<rceil> - 1) < int n" and "int n \<le> c * \<lceil>real n / real_of_int c\<rceil>"
proof -
  have r: "\<lceil>real n / real_of_int c\<rceil> = - ((- int n) div c)"
    using ceiling_divide_eq_div [of "int n" c] by simp
  from int_div_bounds(1) [OF assms, of "- int n"] show "int n \<le> c * \<lceil>real n / real_of_int c\<rceil>"
    unfolding r by simp
  from int_div_bounds(2) [OF assms, of "- int n"] show "c * (\<lceil>real n / real_of_int c\<rceil> - 1) < int n"
    unfolding r by (simp add: algebra_simps)
qed


lemma grid_disjoint:
  assumes c: "0 < TileColumns opts" and p: "0 \<le> Padding opts" and w: "0 \<le> tw" and h: "0 \<le> th"
    and ij: "i < j"
  shows "tileX opts tw i + tw \<le> tileX opts tw j \<or> tileY opts th i + th \<le> tileY opts th j"
proof (cases "int i div TileColumns opts = int j div TileColumns opts")
  case True
  have "int i = TileColumns opts * (int i div TileColumns opts) + int i mod TileColumns opts"
       "int j = TileColumns opts * (int j div TileColumns opts) + int j mod TileColumns opts"
    by simp_all
  with True ij have "int i mod TileColumns opts < int j mod TileColumns opts"
    by (metis add_less_cancel_left of_nat_less_iff)
  then have "int i mod TileColumns opts + 1 \<le> int j mod TileColumns opts" by simp
  then have "(int i mod TileColumns opts + 1) * (tw + Padding opts)
               \<le> (int j mod TileColumns opts) * (tw + Padding opts)"
    using p w by (intro mult_right_mono) simp_all
  then have "tileX opts tw i + tw \<le> tileX opts tw j"
    using p by (simp add: tileX_def algebra_simps)
  then show ?thesis ..
next
  case False
  have "int i div TileColumns opts \<le> int j div TileColumns opts"
    using ij c by (intro zdiv_mono1) simp_all
  with False have "int i div TileColumns opts + 1 \<le> int j div TileColumns opts" by simp
  then have "(int i div TileColumns opts + 1) * (th + Padding opts)
               \<le> (int j div TileColumns opts) * (th + Padding opts)"
    using p h by (intro mult_right_mono) simp_all
  then have "tileY opts th i + th \<le> tileY opts th j"
    using p by (simp add: tileY_def algebra_simps)
  then show ?thesis ..
qed



lemma makeContactSheet_Inr:
  assumes "thumbs \<noteq> []" "TileColumns opts \<noteq> 0"
  shows "makeContactSheet w thumbs opts =
     Inr \<lparr>Width = Dx (Img (hd thumbs)) * TileColumns opts + (TileColumns opts + 1) * Padding opts,
          Height = Dy (Img (hd thumbs)) * \<lceil>real (length thumbs) / real_of_int (TileColumns opts)\<rceil>
                   + (\<lceil>real (length thumbs) / real_of_int (TileColumns opts)\<rceil> + 1) * Padding opts,
          Events = pasteTiles (Render w (TimestampBackground opts)) opts
                     (Dx (Img (hd thumbs))) (Dy (Img (hd thumbs))) 0 thumbs\<rparr>"
  using assms by (cases thumbs) (simp_all add: makeContactSheet_def Let_def)

lemma pasteTiles_count:
  "OverlayTimestamps opts \<Longrightarrow>
   length (filter isPaste (pasteTiles r opts tw th k thumbs)) =
   length (filter (\<lambda>t. \<not> isl (r (formatDuration (Timestamp t)))) thumbs)"
  by (induction thumbs arbitrary: k)
     (auto simp: pasteTile_def overlayTimestamp_def isPaste_def Let_def split: sum.splits)

lemma overlayTimestamp_fail:
  "r (formatDuration (Timestamp t)) = Inl e \<Longrightarrow> overlayTimestamp r t = Inl e"
  by (simp add: overlayTimestamp_def)

lemma overlayTimestamp_ok:
  "r (formatDuration (Timestamp t)) = Inr lab \<Longrightarrow>
   overlayTimestamp r t =
     Inr (t\<lparr>Img := Overlaid (Img t) lab (Dx (Img t) - Dx lab - 10) (Dy (Img t) - Dy lab - 10)\<rparr>)"
  by (simp add: overlayTimestamp_def)

lemmas sheet_defs = makeContactSheet_def pasteTile_def overlayTimestamp_def Render_def formatDuration_def
  pad02_def decimal.simps go_quot_def go_rem_def Hour_def Minute_def Second_def frameAt_def

lemma digit_chars:
  "char_of (48 :: nat) = CHR ''0''" "char_of (49 :: nat) = CHR ''1''" "char_of (50 :: nat) = CHR ''2''"
  by code_simp+

lemma label_glitch_20:
  "Render glitch bg (formatDuration (Timestamp (frameAt 20))) = Inl (RenderFailed ''bad glyph'')"
  by (simp add: sheet_defs glitch_def studio_def digit_chars)

lemma label_glitch_0:
  "Render glitch bg (formatDuration (Timestamp (frameAt 0))) = Inr (Label ''00:00:00'' bg 60 16)"
  by (simp add: sheet_defs glitch_def studio_def digit_chars)

lemma ceiling_seven_thirds: "\<lceil>real (length (map frameAt [0, 1, 2, 3, 4, 5, 6])) / real_of_int (TileColumns fiveTiles)\<rceil> = 3"
  by (simp add: fiveTiles_def)

text \<open>
  Claim C9, as the code has it. For a non-empty list of \<open>n\<close> thumbnails and \<open>c > 0\<close>
  columns the compositor returns a sheet; \<open>rows\<close> is the ceiling of \<open>n / c\<close>, the least
  number of rows of \<open>c\<close> tiles that hold \<open>n\<close>; the canvas is \<open>c * tileWidth + (c + 1) * padding\<close>
  wide and \<open>rows * tileHeight + (rows + 1) * padding\<close> high, the tile size being the first
  thumbnail's; every tile that is pasted is pasted at its grid position, and without the
  timestamp overlay every tile is pasted. When the padding and the tile size are not
  negative, the grid cells of two different tiles do not overlap. For seven tiles in three
  columns there are three rows and tile 4 is in row 1, column 1.
\<close>

theorem makeContactSheet_grid:
  "thumbs \<noteq> [] \<Longrightarrow> 0 < TileColumns opts \<Longrightarrow>
   tw = Dx (Img (hd thumbs)) \<Longrightarrow> th = Dy (Img (hd thumbs)) \<Longrightarrow>
   rows = \<lceil>real (length thumbs) / real_of_int (TileColumns opts)\<rceil> \<Longrightarrow>
     \<exists>sh. makeContactSheet w thumbs opts = Inr sh
       \<and> TileColumns opts * (rows - 1) < int (length thumbs)
       \<and> int (length thumbs) \<le> TileColumns opts * rows
       \<and> Width sh = TileColumns opts * tw + (TileColumns opts + 1) * Padding opts
       \<and> Height sh = rows * th + (rows + 1) * Padding opts
       \<and> length (Events sh) = length thumbs
       \<and> (\<forall>i<length thumbs. \<forall>img x y. Events sh ! i = Paste img x y \<longrightarrow>
             x = tileX opts tw i \<and> y = tileY opts th i)
       \<and> (\<not> OverlayTimestamps opts \<longrightarrow>
             (\<forall>i<length thumbs. Events sh ! i = Paste (Img (thumbs ! i)) (tileX opts tw i) (tileY opts th i)))
       \<and> (0 \<le> Padding opts \<and> 0 \<le> tw \<and> 0 \<le> th \<longrightarrow>
             (\<forall>i j. i < j \<longrightarrow>
                tileX opts tw i + tw \<le> tileX opts tw j \<or> tileY opts th i + th \<le> tileY opts th j))"
proof -
  assume ne: "thumbs \<noteq> []" and c: "0 < TileColumns opts"
    and tw: "tw = Dx (Img (hd thumbs))" and th: "th = Dy (Img (hd thumbs))"
    and rows: "rows = \<lceil>real (length thumbs) / real_of_int (TileColumns opts)\<rceil>"
  define r where "r = Render w (TimestampBackground opts)"
  define sh where "sh = \<lparr>Width = tw * TileColumns opts + (TileColumns opts + 1) * Padding opts,
          Height = th * rows + (rows + 1) * Padding opts,
          Events = pasteTiles r opts tw th 0 thumbs\<rparr>"
  have ret: "makeContactSheet w thumbs opts = Inr sh"
    using makeContactSheet_Inr [OF ne, of opts w] c by (simp add: sh_def tw th rows r_def)
  have ev: "Events sh ! i = pasteTile r opts tw th i (thumbs ! i)" if "i < length thumbs" for i
    using pasteTiles_nth [OF that, of r opts tw th 0] by (simp add: sh_def)
  have b1: "TileColumns opts * (rows - 1) < int (length thumbs)"
    unfolding rows by (rule rows_bounds(1) [OF c])
  have b2: "int (length thumbs) \<le> TileColumns opts * rows"
    unfolding rows by (rule rows_bounds(2) [OF c])
  have wd: "Width sh = TileColumns opts * tw + (TileColumns opts + 1) * Padding opts"
    by (simp add: sh_def)
  have ht: "Height sh = rows * th + (rows + 1) * Padding opts"
    by (simp add: sh_def)
  have len: "length (Events sh) = length thumbs"
    by (simp add: sh_def pasteTiles_length)
  have pos: "\<forall>i<length thumbs. \<forall>img x y. Events sh ! i = Paste img x y \<longrightarrow>
             x = tileX opts tw i \<and> y = tileY opts th i"
    by (auto simp: ev pasteTile_grid [OF c] split: if_splits sum.splits)
  have plain: "\<not> OverlayTimestamps opts \<longrightarrow>
             (\<forall>i<length thumbs. Events sh ! i = Paste (Img (thumbs ! i)) (tileX opts tw i) (tileY opts th i))"
    by (simp add: ev pasteTile_grid [OF c])
  have dis: "0 \<le> Padding opts \<and> 0 \<le> tw \<and> 0 \<le> th \<longrightarrow>
             (\<forall>i j. i < j \<longrightarrow>
                tileX opts tw i + tw \<le> tileX opts tw j \<or> tileY opts th i + th \<le> tileY opts th j)"
    using grid_disjoint [OF c] by blast
  from ret b1 b2 wd ht len pos plain dis show ?thesis by blast
qed

theorem makeContactSheet_grid_witness:
  "\<exists>sh. makeContactSheet studio (map frameAt [0, 1, 2, 3, 4, 5, 6]) fiveTiles = Inr sh
      \<and> Width sh = 316 \<and> Height sh = 316
      \<and> Events sh ! 4 = Paste (Frame 4000 100 100) 108 108
      \<and> tileX fiveTiles 100 4 = 4 + 1 * (100 + 4) \<and> tileY fiveTiles 100 4 = 4 + 1 * (100 + 4)"
proof -
  let ?ts = "map frameAt [0, 1, 2, 3, 4, 5, 6]"
  have h1: "?ts \<noteq> []" by simp
  have h2: "0 < TileColumns fiveTiles" by (simp add: fiveTiles_def)
  have h3: "100 = Dx (Img (hd ?ts))" by (simp add: frameAt_def)
  have h4: "100 = Dy (Img (hd ?ts))" by (simp add: frameAt_def)
  have h5: "3 = \<lceil>real (length ?ts) / real_of_int (TileColumns fiveTiles)\<rceil>"
    by (simp only: ceiling_seven_thirds)
  from makeContactSheet_grid [OF h1 h2 h3 h4 h5, of studio]
  obtain sh where ret: "makeContactSheet studio ?ts fiveTiles = Inr sh"
    and wd: "Width sh = TileColumns fiveTiles * 100 + (TileColumns fiveTiles + 1) * Padding fiveTiles"
    and ht: "Height sh = 3 * 100 + (3 + 1) * Padding fiveTiles"
    and plain: "\<not> OverlayTimestamps fiveTiles \<longrightarrow>
             (\<forall>i<length ?ts. Events sh ! i = Paste (Img (?ts ! i)) (tileX fiveTiles 100 i) (tileY fiveTiles 100 i))"
    by blast
  have x: "tileX fiveTiles 100 4 = 108" and y: "tileY fiveTiles 100 4 = 108"
    by (simp_all add: tileX_def tileY_def fiveTiles_def)
  have no: "\<not> OverlayTimestamps fiveTiles" by (simp add: fiveTiles_def)
  have "\<forall>i<length ?ts. Events sh ! i = Paste (Img (?ts ! i)) (tileX fiveTiles 100 i) (tileY fiveTiles 100 i)"
    by (rule mp [OF plain no])
  moreover have "(4::nat) < length ?ts" by simp
  ultimately have "Events sh ! 4 = Paste (Img (?ts ! 4)) (tileX fiveTiles 100 4) (tileY fiveTiles 100 4)"
    by blast
  then have e4: "Events sh ! 4 = Paste (Frame 4000 100 100) 108 108"
    by (simp add: x y frameAt_def)
  have w': "Width sh = 316" using wd by (simp add: fiveTiles_def)
  have h': "Height sh = 316" using ht by (simp add: fiveTiles_def)
  from ret w' h' e4 x y show ?thesis by simp
qed

text \<open>
  With a negative padding neighbouring cells overlap: two tiles of 100 by 100 pixels in two
  columns with a padding of -5 are pasted at \<open>x = -5\<close> and \<open>x = 90\<close> in the same row.
\<close>

theorem makeContactSheet_negative_padding_overlaps:
  "makeContactSheet studio [frameAt 0, frameAt 20] (fiveTiles\<lparr>TileColumns := 2, Padding := - 5\<rparr>) =
     Inr \<lparr>Width = 185, Height = 90,
          Events = [Paste (Frame 0 100 100) (- 5) (- 5), Paste (Frame 20000 100 100) 90 (- 5)]\<rparr>
   \<and> \<not> (tileX (fiveTiles\<lparr>TileColumns := 2, Padding := - 5\<rparr>) 100 0 + 100
          \<le> tileX (fiveTiles\<lparr>TileColumns := 2, Padding := - 5\<rparr>) 100 1
        \<or> tileY (fiveTiles\<lparr>TileColumns := 2, Padding := - 5\<rparr>) 100 0 + 100
          \<le> tileY (fiveTiles\<lparr>TileColumns := 2, Padding := - 5\<rparr>) 100 1)"
  by (simp add: sheet_defs studio_def fiveTiles_def tileX_def tileY_def)


text \<open>
  Claim C4, as the code has it. With the timestamp overlay enabled the composition never
  fails because of a label. A tile whose label fails to render is logged with its timestamp
  and the loop continues with the next tile: nothing is pasted for that tile. A tile whose
  label renders is pasted, with the label overlaid 10 pixels from its bottom right corner,
  at its grid position. The sheet has as many pasted tiles as labels that rendered.
\<close>

theorem makeContactSheet_label_failure:
  "thumbs \<noteq> [] \<Longrightarrow> 0 < TileColumns opts \<Longrightarrow> OverlayTimestamps opts \<Longrightarrow>
   r = Render w (TimestampBackground opts) \<Longrightarrow>
   tw = Dx (Img (hd thumbs)) \<Longrightarrow> th = Dy (Img (hd thumbs)) \<Longrightarrow>
     \<exists>sh. makeContactSheet w thumbs opts = Inr sh
       \<and> length (Events sh) = length thumbs
       \<and> (\<forall>i<length thumbs. \<forall>e. r (formatDuration (Timestamp (thumbs ! i))) = Inl e \<longrightarrow>
             Events sh ! i = LogError (Timestamp (thumbs ! i)) e)
       \<and> (\<forall>i<length thumbs. \<forall>lab. r (formatDuration (Timestamp (thumbs ! i))) = Inr lab \<longrightarrow>
             Events sh ! i =
               Paste (Overlaid (Img (thumbs ! i)) lab
                        (Dx (Img (thumbs ! i)) - Dx lab - 10) (Dy (Img (thumbs ! i)) - Dy lab - 10))
                     (tileX opts tw i) (tileY opts th i))
       \<and> length (filter isPaste (Events sh)) =
           length (filter (\<lambda>t. \<not> isl (r (formatDuration (Timestamp t)))) thumbs)"
proof -
  assume ne: "thumbs \<noteq> []" and c: "0 < TileColumns opts" and ov: "OverlayTimestamps opts"
    and r: "r = Render w (TimestampBackground opts)"
    and tw: "tw = Dx (Img (hd thumbs))" and th: "th = Dy (Img (hd thumbs))"
  define sh where "sh = \<lparr>Width = tw * TileColumns opts + (TileColumns opts + 1) * Padding opts,
          Height = th * \<lceil>real (length thumbs) / real_of_int (TileColumns opts)\<rceil>
                   + (\<lceil>real (length thumbs) / real_of_int (TileColumns opts)\<rceil> + 1) * Padding opts,
          Events = pasteTiles r opts tw th 0 thumbs\<rparr>"
  have ret: "makeContactSheet w thumbs opts = Inr sh"
    using makeContactSheet_Inr [OF ne, of opts w] c by (simp add: sh_def tw th r)
  have ev: "Events sh ! i = pasteTile r opts tw th i (thumbs ! i)" if "i < length thumbs" for i
    using pasteTiles_nth [OF that, of r opts tw th 0] by (simp add: sh_def)
  have len: "length (Events sh) = length thumbs"
    by (simp add: sh_def pasteTiles_length)
  have bad: "\<forall>i<length thumbs. \<forall>e. r (formatDuration (Timestamp (thumbs ! i))) = Inl e \<longrightarrow>
             Events sh ! i = LogError (Timestamp (thumbs ! i)) e"
    by (simp add: ev pasteTile_grid [OF c] ov overlayTimestamp_fail)
  have good: "\<forall>i<length thumbs. \<forall>lab. r (formatDuration (Timestamp (thumbs ! i))) = Inr lab \<longrightarrow>
             Events sh ! i =
               Paste (Overlaid (Img (thumbs ! i)) lab
                        (Dx (Img (thumbs ! i)) - Dx lab - 10) (Dy (Img (thumbs ! i)) - Dy lab - 10))
                     (tileX opts tw i) (tileY opts th i)"
    by (simp add: ev pasteTile_grid [OF c] ov overlayTimestamp_ok)
  have cnt: "length (filter isPaste (Events sh)) =
           length (filter (\<lambda>t. \<not> isl (r (formatDuration (Timestamp t)))) thumbs)"
    by (simp add: sh_def pasteTiles_count [OF ov])
  from ret len bad good cnt show ?thesis by blast
qed

theorem makeContactSheet_label_failure_witness:
  "\<exists>sh. makeContactSheet glitch [frameAt 0, frameAt 20] (fiveTiles\<lparr>OverlayTimestamps := True\<rparr>) = Inr sh
      \<and> Events sh ! 1 = LogError (20 * Second) (RenderFailed ''bad glyph'')
      \<and> length (filter isPaste (Events sh)) = 1"
proof -
  let ?o = "fiveTiles\<lparr>OverlayTimestamps := True\<rparr>"
  let ?ts = "[frameAt 0, frameAt 20]"
  have h1: "?ts \<noteq> []" by simp
  have h2: "0 < TileColumns ?o" by (simp add: fiveTiles_def)
  have h3: "OverlayTimestamps ?o" by simp
  from makeContactSheet_label_failure [OF h1 h2 h3 refl refl refl, of glitch]
  obtain sh where ret: "makeContactSheet glitch ?ts ?o = Inr sh"
    and bad: "\<forall>i<length ?ts. \<forall>e. Render glitch (TimestampBackground ?o) (formatDuration (Timestamp (?ts ! i))) = Inl e \<longrightarrow>
                Events sh ! i = LogError (Timestamp (?ts ! i)) e"
    and cnt: "length (filter isPaste (Events sh)) =
                length (filter (\<lambda>t. \<not> isl (Render glitch (TimestampBackground ?o) (formatDuration (Timestamp t)))) ?ts)"
    by blast
  have "(1::nat) < length ?ts" by simp
  with bad have "Render glitch (TimestampBackground ?o) (formatDuration (Timestamp (?ts ! 1))) = Inl (RenderFailed ''bad glyph'') \<longrightarrow>
                Events sh ! 1 = LogError (Timestamp (?ts ! 1)) (RenderFailed ''bad glyph'')"
    by blast
  then have e1: "Events sh ! 1 = LogError (20 * Second) (RenderFailed ''bad glyph'')"
    by (simp add: label_glitch_20) (simp add: frameAt_def)
  have c1: "length (filter isPaste (Events sh)) = 1"
    unfolding cnt by (simp add: label_glitch_20 label_glitch_0)
  from ret e1 c1 show ?thesis by blast
qed

text \<open>
  Of two tiles, the second with a label that cannot be rendered, only the first is pasted.
\<close>

theorem makeContactSheet_skips_unlabelled_tile:
  "makeContactSheet glitch [frameAt 0, frameAt 20] (fiveTiles\<lparr>OverlayTimestamps := True\<rparr>) =
     Inr \<lparr>Width = 316, Height = 108,
          Events = [Paste (Overlaid (Frame 0 100 100) (Label ''00:00:00'' Transparent 60 16) 30 74) 4 4,
                    LogError (20 * Second) (RenderFailed ''bad glyph'')]\<rparr>"
  by (simp add: sheet_defs glitch_def studio_def fiveTiles_def digit_chars)

subsection \<open>The sequential revision\<close>

text \<open>
  In the sequential revision a failed extraction is not fatal: with the sample at 20
  seconds failing, the call returns the other four frames and no error.
\<close>

lemma MakeThumbnails_sequential_partial:
  "MakeThumbnails_sequential (failingAt 20000) fiveTiles =
     Inr [Frame 0 540 304, Frame 40000 540 304, Frame 60000 540 304, Frame 80000 540 304]"
proof -
  have p: "timing fiveTiles (Truncate (100 * Second) Second) = Inr (0, 20 * Second, 5)"
    by (simp add: timing_def window_def totalTiles_def go_quot_def Second_def fiveTiles_def Truncate_def)
  have r: "readDuration (failingAt 20000) = Inr (100 * Second)"
    by (simp add: readDuration_def float_to_int_def failingAt_def studio_def)
  have e: "extractThumbnail (failingAt 20000) (0 + int j * (20 * Second)) (TileWidth fiveTiles) (TileHeight fiveTiles) =
             (if j = 1 then Inl (RunFailed ''exit status 1'')
              else Inr \<lparr>Img = Frame (20000 * int j) 540 304, Timestamp = int j * (20 * Second)\<rparr>)" for j
    by (simp add: extractThumbnail_def Milliseconds_sample failingAt_def studio_def fiveTiles_def)
  have no: "\<not> OverlayTimestamps fiveTiles" by (simp add: fiveTiles_def)
  have s: "extractLoop (failingAt 20000) fiveTiles 0 (20 * Second) (j # rest) =
             (if j = 1 then extractLoop (failingAt 20000) fiveTiles 0 (20 * Second) rest
              else Frame (20000 * int j) 540 304 # extractLoop (failingAt 20000) fiveTiles 0 (20 * Second) rest)"
    for j rest
    by (simp only: extractLoop.simps Let_def e) (simp add: no)
  have l: "extractLoop (failingAt 20000) fiveTiles 0 (20 * Second) [0, 1, 2, 3, 4] =
             [Frame 0 540 304, Frame 40000 540 304, Frame 60000 540 304, Frame 80000 540 304]"
    by (simp add: s del: extractLoop.simps(2))
  have v: "Validate fiveTiles = None" by (simp add: Validate_def fiveTiles_def)
  have c: "checkFfmpegInstalled (failingAt 20000) = None"
    by (simp add: checkFfmpegInstalled_def failingAt_def studio_def)
  have m: "MakeThumbnails_sequential (failingAt 20000) fiveTiles =
             Inr (extractLoop (failingAt 20000) fiveTiles 0 (20 * Second) [0..<5])"
    by (simp add: MakeThumbnails_sequential_def v c r p)
  show ?thesis
    unfolding m upt_0_5 l ..
qed

end
